theory Spec2Isabelle
  imports Main "HOL-Library.Multiset"
begin

section \<open>Strings\<close>

text \<open>
  A JavaScript string is a sequence of UTF-16 code units. The model writes a code unit as a
  \<^typ>\<open>char\<close>, so it covers the strings whose code units are below 256 (ASCII and the
  Latin-1 supplement); there a code unit is a code point, and \<open>substring\<close> and
  \<open>includes\<close> work unit by unit.
\<close>

text \<open>
  \<open>String.prototype.toLowerCase\<close> on one code unit below 256: the letters A..Z and the
  Latin-1 capitals U+00C0..U+00DE (U+00D7, the multiplication sign, is no letter) move up by
  32; every other unit is kept.
\<close>

definition lower_unit :: "char \<Rightarrow> char" where
  "lower_unit c =
     (let n = (of_char c :: nat)
      in if (65 \<le> n \<and> n \<le> 90) \<or> (192 \<le> n \<and> n \<le> 222 \<and> n \<noteq> 215)
         then char_of (n + 32) else c)"

definition toLowerCase :: "string \<Rightarrow> string" where
  "toLowerCase s = map lower_unit s"

text \<open>\<open>s.startsWith(k)\<close> and \<open>s.includes(k)\<close>: \<open>k\<close> occurs in \<open>s\<close> as a contiguous run.\<close>

fun startsWith :: "string \<Rightarrow> string \<Rightarrow> bool" where
  "startsWith s [] = True"
| "startsWith [] (k # ks) = False"
| "startsWith (c # cs) (k # ks) = (c = k \<and> startsWith cs ks)"

fun includes_str :: "string \<Rightarrow> string \<Rightarrow> bool" where
  "includes_str [] k = (k = [])"
| "includes_str (c # cs) k = (startsWith (c # cs) k \<or> includes_str cs k)"

section \<open>The classifier (discord-export-archive.js)\<close>

text \<open>
  \<open>TAG_RULES\<close> is an object literal; \<open>Object.entries\<close> lists its string keys in insertion
  order, so the table is the list of its entries as written.
\<close>

definition TAG_RULES :: "(string \<times> string list) list" where
  "TAG_RULES =
     [(''NetSuite/P21'', [''netsuite'', ''p21'', ''erp'', ''integration'']),
      (''Business'', [''meeting'', ''strategy'', ''planning'', ''budget'']),
      (''Development'', [''code'', ''github'', ''deploy'', ''bug'', ''feature'']),
      (''Tools'', [''notion'', ''discord'', ''chatgpt'', ''claude'', ''shareX'']),
      (''Vegas/MGM'', [''vegas'', ''mgm'', ''conference'', ''travel'']),
      (''Family'', [''family'', ''personal'', ''vacation'']),
      (''Tech/Hardware'', [''server'', ''hardware'', ''network'', ''setup''])]"

text \<open>\<open>keywords.some(keyword => lowerContent.includes(keyword))\<close>\<close>

definition rule_matches :: "string \<Rightarrow> string \<times> string list \<Rightarrow> bool" where
  "rule_matches lowerContent rule = list_ex (\<lambda>keyword. includes_str lowerContent keyword) (snd rule)"

text \<open>The \<open>for ... of\<close> loop over the entries, returning at the first rule that matches.\<close>

fun classify_loop :: "(string \<times> string list) list \<Rightarrow> string \<Rightarrow> string" where
  "classify_loop [] lowerContent = ''Uncategorized''"
| "classify_loop (rule # rest) lowerContent =
     (if rule_matches lowerContent rule then fst rule else classify_loop rest lowerContent)"

definition classify :: "(string \<times> string list) list \<Rightarrow> string \<Rightarrow> string" where
  "classify rules content = classify_loop rules (toLowerCase content)"

definition classifyMessage :: "string \<Rightarrow> string" where
  "classifyMessage content = classify TAG_RULES content"

section \<open>Messages and conversations (discord-export-archive.js)\<close>

text \<open>
  A message as \<open>exportChannelToMarkdown\<close> builds it. \<open>timestamp\<close> is a \<open>Date\<close>; subtracting two
  dates gives their distance in milliseconds, so the model keeps the instant as the number of
  milliseconds since the epoch.
\<close>

record message =
  msg_id :: string
  author :: string
  authorId :: string
  content :: string
  timestamp :: int
  attachments :: "string list"
  tag :: string

text \<open>
  A conversation. While the loop runs, \<open>participants\<close> and \<open>tags\<close> are \<open>Set\<close>s; a \<open>Set\<close> keeps
  its members in insertion order, and \<open>Array.from\<close> lists them in that order, so a \<open>Set\<close> is
  modelled by the list of its members in insertion order and \<open>Array.from\<close> changes nothing.
\<close>

record conversation =
  title :: string
  messages :: "message list"
  participants :: "string list"
  tags :: "string list"

text \<open>\<open>Set.prototype.add\<close>\<close>

definition set_add :: "'a list \<Rightarrow> 'a \<Rightarrow> 'a list" where
  "set_add s x = (if x \<in> set s then s else s @ [x])"

text \<open>The message as the fetch loop of \<open>exportChannelToMarkdown\<close> reads it from Discord.\<close>

record discord_msg =
  d_id :: string
  d_username :: string
  d_userId :: string
  d_content :: string
  d_createdAt :: int
  d_attachment_urls :: "string list"

text \<open>The object pushed on \<open>messages\<close> by \<open>exportChannelToMarkdown\<close>.\<close>

definition buildMessage :: "discord_msg \<Rightarrow> message" where
  "buildMessage msg =
     \<lparr>msg_id = d_id msg,
      author = d_username msg,
      authorId = d_userId msg,
      content = d_content msg,
      timestamp = d_createdAt msg,
      attachments = d_attachment_urls msg,
      tag = classifyMessage (d_content msg)\<rparr>"

text \<open>
  The object assigned to \<open>currentConv\<close> when a conversation starts:
  \<open>msg.content.substring(0, 50) + '...'\<close> and three empty collections.
\<close>

definition new_conversation :: "message \<Rightarrow> conversation" where
  "new_conversation msg =
     \<lparr>title = take 50 (content msg) @ ''...'', messages = [], participants = [], tags = []\<rparr>"

text \<open>The three updates of \<open>currentConv\<close> at the end of the loop body.\<close>

definition add_message :: "conversation \<Rightarrow> message \<Rightarrow> conversation" where
  "add_message currentConv msg =
     currentConv\<lparr>messages := messages currentConv @ [msg],
                 participants := set_add (participants currentConv) (author msg),
                 tags := set_add (tags currentConv) (tag msg)\<rparr>"

text \<open>
  The loop of \<open>groupIntoConversations\<close>. \<open>currentConv\<close> is the object that was pushed last on
  \<open>conversations\<close>, so the array is \<open>earlier\<close> followed by \<open>currentConv\<close>; \<open>None\<close> is \<open>null\<close>, with
  an empty array. The test reads the last message of \<open>currentConv\<close>, which has one from its
  creation on.
\<close>

fun group_loop :: "conversation list \<Rightarrow> conversation option \<Rightarrow> message list \<Rightarrow> conversation list" where
  "group_loop earlier None [] = earlier"
| "group_loop earlier (Some currentConv) [] = earlier @ [currentConv]"
| "group_loop earlier None (msg # rest) =
     group_loop earlier (Some (add_message (new_conversation msg) msg)) rest"
| "group_loop earlier (Some currentConv) (msg # rest) =
     (if timestamp msg - timestamp (last (messages currentConv)) > 30 * 60 * 1000
      then group_loop (earlier @ [currentConv]) (Some (add_message (new_conversation msg) msg)) rest
      else group_loop earlier (Some (add_message currentConv msg)) rest)"

text \<open>
  \<open>messages.sort((a, b) => a.timestamp - b.timestamp)\<close> sorts the caller's array in place,
  ascending by timestamp; \<open>Array.prototype.sort\<close> is stable, and \<^const>\<open>sort_key\<close> is the stable
  sort by a key.
\<close>

definition sort_by_timestamp :: "message list \<Rightarrow> message list" where
  "sort_by_timestamp msgs = sort_key timestamp msgs"

text \<open>
  \<open>groupIntoConversations\<close> returns the conversations and leaves the caller's array sorted:
  the model returns the array after the call and the conversations.
\<close>

definition groupIntoConversations :: "message list \<Rightarrow> message list \<times> conversation list" where
  "groupIntoConversations msgs =
     (let sorted_msgs = sort_by_timestamp msgs
      in (sorted_msgs, group_loop [] None sorted_msgs))"

text \<open>Consecutive messages of a list are at most \<open>g\<close> milliseconds apart.\<close>

fun gaps_within :: "int \<Rightarrow> message list \<Rightarrow> bool" where
  "gaps_within g (a # b # rest) = (timestamp b - timestamp a \<le> g \<and> gaps_within g (b # rest))"
| "gaps_within g [a] = True"
| "gaps_within g [] = True"

text \<open>
  From the last message of a conversation to the first message of the next one, more than
  \<open>g\<close> milliseconds pass.
\<close>

fun boundaries_exceed :: "int \<Rightarrow> conversation list \<Rightarrow> bool" where
  "boundaries_exceed g (c # d # rest) =
     (timestamp (hd (messages d)) - timestamp (last (messages c)) > g
      \<and> boundaries_exceed g (d # rest))"
| "boundaries_exceed g [c] = True"
| "boundaries_exceed g [] = True"

text \<open>Every conversation has a message and keeps within the gap, and every boundary exceeds it.\<close>

definition respects_gap :: "int \<Rightarrow> conversation list \<Rightarrow> bool" where
  "respects_gap g convs =
     (list_all (\<lambda>c. messages c \<noteq> [] \<and> gaps_within g (messages c)) convs
      \<and> boundaries_exceed g convs)"

text \<open>An example message by \<open>a\<close> with text \<open>c\<close> at instant \<open>t\<close>, built as the exporter builds it.\<close>

definition example_message :: "string \<Rightarrow> string \<Rightarrow> int \<Rightarrow> message" where
  "example_message a c t =
     buildMessage \<lparr>d_id = ''1'', d_username = a, d_userId = ''7'', d_content = c,
                   d_createdAt = t, d_attachment_urls = []\<rparr>"

text \<open>
  Four messages at 0, 5, 40 and 41 minutes, in order; and two messages handed over out of
  order.
\<close>

definition example_stream :: "message list" where
  "example_stream =
     [example_message ''ann'' ''deploy the code'' 0,
      example_message ''bob'' '''' 300000,
      example_message ''ann'' ''vegas travel'' 2400000,
      example_message ''ann'' ''which hotel in vegas'' 2460000]"

definition example_unsorted :: "message list" where
  "example_unsorted =
     [example_message ''bob'' ''second'' 1000,
      example_message ''ann'' ''first'' 0]"

section \<open>The webhook handler (discord-webhook-handler.js)\<close>

text \<open>
  The request body after \<open>express.json()\<close>, with the four properties \<open>formatDiscordMessage\<close>
  reads; \<open>None\<close> is a property that is missing (or \<open>null\<close>).
\<close>

record notion_page =
  page_title :: string
  page_url :: string

record notion_user =
  user_id :: string
  user_name :: string

record notion_payload =
  page :: "notion_page option"
  user :: "notion_user option"
  update_type :: string
  changes :: "string list option"

record embed_field =
  field_name :: string
  field_value :: string
  field_inline :: "bool option"

record discord_message =
  message_content :: "string option"
  embed_title :: string
  embed_color :: nat
  embed_fields :: "embed_field list"
  embed_timestamp :: string

datatype js_error = TypeError

text \<open>\<open>userMapping\<close> is the empty object literal of the source.\<close>

definition userMapping :: "string \<rightharpoonup> string" where
  "userMapping = Map.empty"

text \<open>\<open>Array.prototype.join\<close>\<close>

fun join :: "string \<Rightarrow> string list \<Rightarrow> string" where
  "join sep [] = []"
| "join sep [x] = x"
| "join sep (x # y # rest) = x @ sep @ join sep (y # rest)"

text \<open>
  \<open>formatDiscordMessage\<close>; \<open>now\<close> is \<open>new Date().toISOString()\<close>. Reading \<open>user.id\<close> or
  \<open>page.title\<close> of a missing property throws a \<open>TypeError\<close>. \<open>mapped\<close> is the entry of
  \<open>userMapping\<close> when there is one and it is truthy. The title literal starts with
  the memo emoji U+1F4DD, written here as its UTF-8 bytes; the separator \<open>'\\n'\<close> is a backslash
  and the letter n.
\<close>

definition formatDiscordMessage :: "string \<Rightarrow> notion_payload \<Rightarrow> js_error + discord_message" where
  "formatDiscordMessage now notionData =
     (case user notionData of
        None \<Rightarrow> Inl TypeError
      | Some u \<Rightarrow>
         (case page notionData of
            None \<Rightarrow> Inl TypeError
          | Some p \<Rightarrow>
             (let mapped = (case userMapping (user_id u) of
                              Some d \<Rightarrow> if d \<noteq> [] then Some d else None
                            | None \<Rightarrow> None);
                  discordUser = (case mapped of Some d \<Rightarrow> d | None \<Rightarrow> user_name u);
                  embed = \<lparr>message_content = None,
                           embed_title = [CHR 0xF0, CHR 0x9F, CHR 0x93, CHR 0x9D] @ '' Notion Update'',
                           embed_color = 0x0077FF,
                           embed_fields =
                             [\<lparr>field_name = ''Page'',
                               field_value = ''['' @ page_title p @ '']('' @ page_url p @ '')'',
                               field_inline = Some True\<rparr>,
                              \<lparr>field_name = ''Updated By'', field_value = user_name u,
                               field_inline = Some True\<rparr>,
                              \<lparr>field_name = ''Type'', field_value = update_type notionData,
                               field_inline = Some True\<rparr>],
                           embed_timestamp = now\<rparr>;
                  embed1 = (case mapped of
                              Some d \<Rightarrow> embed\<lparr>message_content := Some (discordUser @ '' - New Notion update!'')\<rparr>
                            | None \<Rightarrow> embed);
                  embed2 = (case changes notionData of
                              None \<Rightarrow> embed1
                            | Some cs \<Rightarrow>
                               if length cs > 0
                               then embed1\<lparr>embed_fields := embed_fields embed1 @
                                      [\<lparr>field_name = ''Changes'',
                                        field_value = take 1024 (join [CHR 0x5C, CHR ''n''] cs),
                                        field_inline = None\<rparr>]\<rparr>
                               else embed1)
              in Inr embed2)))"

text \<open>
  What the handler takes from outside: the HMAC-SHA256 hex digest of a text under a key
  (\<open>crypto.createHmac('sha256', key).update(text).digest('hex')\<close>), \<open>JSON.stringify\<close> on the
  body, \<open>process.env.NOTION_SECRET\<close> (\<open>None\<close> when unset), the clock, and whether
  \<open>axios.post\<close> of a message to the Discord webhook resolves.
\<close>

record environment =
  hmac_sha256_hex :: "string \<Rightarrow> string \<Rightarrow> string"
  JSON_stringify :: "notion_payload \<Rightarrow> string"
  NOTION_SECRET :: "string option"
  clock_iso :: string
  axios_post_resolves :: "discord_message \<Rightarrow> bool"

text \<open>\<open>verifyNotionSignature\<close>; \<open>createHmac\<close> throws a \<open>TypeError\<close> when the key is \<open>undefined\<close>.\<close>

definition verifyNotionSignature :: "environment \<Rightarrow> notion_payload \<Rightarrow> string \<Rightarrow> js_error + bool" where
  "verifyNotionSignature env payload signature =
     (case NOTION_SECRET env of
        None \<Rightarrow> Inl TypeError
      | Some secret \<Rightarrow>
          Inr (hmac_sha256_hex env secret (JSON_stringify env payload) = signature))"

text \<open>A request: its headers (names in lower case, as Node gives them) and its parsed body.\<close>

record request =
  headers :: "string \<rightharpoonup> string"
  body :: notion_payload

text \<open>
  What the handler did: the status of the response, the message handed to \<open>axios.post\<close>
  (\<open>None\<close> when \<open>axios.post\<close> was not called), and whether \<open>verifyNotionSignature\<close> was called.
\<close>

record outcome =
  status :: nat
  posted :: "discord_message option"
  signature_checked :: bool

text \<open>
  The handler of \<open>POST /notion-webhook\<close>. \<open>signature && ...\<close> calls \<open>verifyNotionSignature\<close>
  only for a truthy header value: the header is there and is not the empty string. Whatever
  is thrown inside \<open>try\<close> ends in the \<open>catch\<close> branch with status 500.
\<close>

definition notion_webhook :: "environment \<Rightarrow> request \<Rightarrow> outcome" where
  "notion_webhook env req =
     (let signature = headers req ''x-notion-signature'';
          truthy = (case signature of None \<Rightarrow> False | Some s \<Rightarrow> s \<noteq> []);
          verified = (case signature of
                        None \<Rightarrow> Inr True
                      | Some s \<Rightarrow> if s \<noteq> [] then verifyNotionSignature env (body req) s
                                  else Inr True)
      in case verified of
           Inl e \<Rightarrow> \<lparr>status = 500, posted = None, signature_checked = truthy\<rparr>
         | Inr False \<Rightarrow> \<lparr>status = 401, posted = None, signature_checked = truthy\<rparr>
         | Inr True \<Rightarrow>
            (case formatDiscordMessage (clock_iso env) (body req) of
               Inl e \<Rightarrow> \<lparr>status = 500, posted = None, signature_checked = truthy\<rparr>
             | Inr discordMessage \<Rightarrow>
                \<lparr>status = (if axios_post_resolves env discordMessage then 200 else 500),
                 posted = Some discordMessage,
                 signature_checked = truthy\<rparr>))"

text \<open>
  An example environment and payload. The digest function is a stand-in that returns 64
  hexadecimal digits, the shape of every SHA-256 hex digest.
\<close>

definition example_environment :: environment where
  "example_environment =
     \<lparr>hmac_sha256_hex =
        (\<lambda>key text. ''9f86d081884c7d659a2feaa0c55ad015a3bf4f1b2b0b822cd15d6c15b0f00a08''),
      JSON_stringify = (\<lambda>payload. ''{}''),
      NOTION_SECRET = Some ''secret'',
      clock_iso = ''2024-01-01T00:00:00.000Z'',
      axios_post_resolves = (\<lambda>message. True)\<rparr>"

definition example_payload :: notion_payload where
  "example_payload =
     \<lparr>page = Some \<lparr>page_title = ''Roadmap'', page_url = ''https://www.notion.so/roadmap''\<rparr>,
      user = Some \<lparr>user_id = ''u1'', user_name = ''Ann''\<rparr>,
      update_type = ''page.updated'',
      changes = Some [''title'', ''status'']\<rparr>"

section \<open>Strings and the classifier: lemmas\<close>

lemma startsWith_iff: "startsWith s k \<longleftrightarrow> (\<exists>q. s = k @ q)"
  by (induction s k rule: startsWith.induct) auto

lemma includes_str_iff: "includes_str s k \<longleftrightarrow> (\<exists>p q. s = p @ k @ q)"
proof (induction s)
  case Nil
  then show ?case by simp
next
  case (Cons c cs)
  show ?case
  proof
    assume "includes_str (c # cs) k"
    then consider "startsWith (c # cs) k" | "includes_str cs k" by auto
    then show "\<exists>p q. c # cs = p @ k @ q"
    proof cases
      case 1
      then obtain q where "c # cs = k @ q" by (auto simp: startsWith_iff)
      then have "c # cs = [] @ k @ q" by simp
      then show ?thesis by blast
    next
      case 2
      then obtain p q where "cs = p @ k @ q" using Cons.IH by auto
      then have "c # cs = (c # p) @ k @ q" by simp
      then show ?thesis by blast
    qed
  next
    assume "\<exists>p q. c # cs = p @ k @ q"
    then obtain p q where pq: "c # cs = p @ k @ q" by blast
    show "includes_str (c # cs) k"
    proof (cases p)
      case Nil
      with pq have "startsWith (c # cs) k" by (auto simp: startsWith_iff)
      then show ?thesis by simp
    next
      case (Cons a p')
      with pq have "cs = p' @ k @ q" by simp
      then have "includes_str cs k" using Cons.IH by blast
      then show ?thesis by simp
    qed
  qed
qed

lemma of_char_lower_unit: "\<not> (65 \<le> (of_char (lower_unit c) :: nat) \<and> (of_char (lower_unit c) :: nat) \<le> 90)"
proof -
  have "(of_char c :: nat) < 256" by simp
  then show ?thesis
    by (auto simp: lower_unit_def Let_def)
qed

lemma lower_unit_not_X: "lower_unit c \<noteq> CHR ''X''"
proof
  assume "lower_unit c = CHR ''X''"
  then have "(of_char (lower_unit c) :: nat) = 88" by simp
  with of_char_lower_unit [of c] show False by simp
qed

lemma includes_str_set: "includes_str s k \<Longrightarrow> set k \<subseteq> set s"
  by (auto simp: includes_str_iff)

lemma shareX_dead: "\<not> includes_str (toLowerCase text) ''shareX''"
proof
  assume "includes_str (toLowerCase text) ''shareX''"
  then have "CHR ''X'' \<in> set (toLowerCase text)" using includes_str_set by fastforce
  then obtain x where "lower_unit x = CHR ''X''" by (auto simp: toLowerCase_def)
  then show False using lower_unit_not_X by blast
qed

text \<open>
  What the comparison of \<open>classifyMessage\<close> decides: a keyword is found in the lower-cased
  text exactly when some run of the text lower-cases to the keyword as it is written.
\<close>

lemma includes_str_toLowerCase:
  "includes_str (toLowerCase text) keyword =
     (\<exists>run. includes_str text run \<and> toLowerCase run = keyword)"
proof
  assume "includes_str (toLowerCase text) keyword"
  then obtain p q where pq: "map lower_unit text = p @ keyword @ q"
    unfolding includes_str_iff toLowerCase_def by blast
  from pq obtain p' r where t: "text = p' @ r" and r: "keyword @ q = map lower_unit r"
    using map_eq_append_conv [of lower_unit "text" p "keyword @ q"] by blast
  from r obtain run q' where r': "r = run @ q'" and k: "keyword = map lower_unit run"
    using append_eq_map_conv [of keyword q lower_unit r] by blast
  have "text = p' @ run @ q'" using t r' by simp
  then have "includes_str text run" unfolding includes_str_iff by blast
  moreover have "toLowerCase run = keyword" using k by (simp add: toLowerCase_def)
  ultimately show "\<exists>run. includes_str text run \<and> toLowerCase run = keyword" by blast
next
  assume "\<exists>run. includes_str text run \<and> toLowerCase run = keyword"
  then obtain run where a: "includes_str text run" and b: "toLowerCase run = keyword"
    by blast
  from a obtain p q where "text = p @ run @ q" unfolding includes_str_iff by blast
  then have "toLowerCase text = toLowerCase p @ toLowerCase run @ toLowerCase q"
    by (simp add: toLowerCase_def)
  then have "toLowerCase text = toLowerCase p @ keyword @ toLowerCase q" using b by simp
  then show "includes_str (toLowerCase text) keyword" unfolding includes_str_iff by blast
qed

lemma classify_loop_first:
  "i < length rules \<Longrightarrow> rule_matches lc (rules ! i) \<Longrightarrow> \<forall>j<i. \<not> rule_matches lc (rules ! j)
   \<Longrightarrow> classify_loop rules lc = fst (rules ! i)"
proof (induction rules arbitrary: i)
  case Nil
  then show ?case by simp
next
  case (Cons r rs)
  show ?case
  proof (cases i)
    case 0
    with Cons.prems show ?thesis by simp
  next
    case (Suc k)
    with Cons.prems have "\<not> rule_matches lc r" by auto
    moreover have "\<forall>j<k. \<not> rule_matches lc (rs ! j)"
    proof (intro allI impI)
      fix j assume "j < k"
      then have "Suc j < i" using Suc by simp
      then have "\<not> rule_matches lc ((r # rs) ! Suc j)" using Cons.prems(3) by blast
      then show "\<not> rule_matches lc (rs ! j)" by simp
    qed
    then have "classify_loop rs lc = fst (rs ! k)"
      using Cons.IH [of k] Cons.prems(1,2) Suc by simp
    ultimately show ?thesis using Suc by simp
  qed
qed

lemma classify_loop_none:
  "\<not> list_ex (rule_matches lc) rules \<Longrightarrow> classify_loop rules lc = ''Uncategorized''"
  by (induction rules) auto

lemma classify_loop_some:
  "list_ex (rule_matches lc) rules \<Longrightarrow> classify_loop rules lc \<in> fst ` set rules"
  by (induction rules) auto

section \<open>The segmenter: lemmas\<close>

lemma group_loop_concat:
  "concat (map messages (group_loop earlier cur rest)) =
     concat (map messages earlier) @ (case cur of None \<Rightarrow> [] | Some c \<Rightarrow> messages c) @ rest"
  by (induction earlier cur rest rule: group_loop.induct)
     (simp_all add: add_message_def new_conversation_def)

lemma group_loop_list_all:
  assumes start: "\<And>m. Q (add_message (new_conversation m) m)"
    and step: "\<And>c m. Q c \<Longrightarrow> Q (add_message c m)"
  shows "list_all Q earlier \<Longrightarrow> (case cur of None \<Rightarrow> True | Some c \<Rightarrow> Q c)
         \<Longrightarrow> list_all Q (group_loop earlier cur rest)"
  by (induction earlier cur rest rule: group_loop.induct) (simp_all add: start step)

lemma gaps_within_snoc:
  "gaps_within g (xs @ [m]) =
     (gaps_within g xs \<and> (xs \<noteq> [] \<longrightarrow> timestamp m - timestamp (last xs) \<le> g))"
  by (induction g xs rule: gaps_within.induct) auto

lemma boundaries_exceed_snoc:
  "boundaries_exceed g (cs @ [c]) =
     (boundaries_exceed g cs
      \<and> (cs \<noteq> [] \<longrightarrow> timestamp (hd (messages c)) - timestamp (last (messages (last cs))) > g))"
  by (induction g cs rule: boundaries_exceed.induct) auto

lemma boundaries_exceed_mono:
  "g' \<le> g \<Longrightarrow> boundaries_exceed g cs \<Longrightarrow> boundaries_exceed g' cs"
  by (induction g cs rule: boundaries_exceed.induct) auto

lemma respects_gap_start: "respects_gap g cs \<Longrightarrow> cs \<noteq> [] \<Longrightarrow>
   timestamp m - timestamp (last (messages (last cs))) > g \<Longrightarrow>
   respects_gap g (cs @ [add_message (new_conversation m) m])"
  unfolding respects_gap_def
  by (simp add: boundaries_exceed_snoc add_message_def new_conversation_def)

lemma respects_gap_add: "respects_gap g (earlier @ [c]) \<Longrightarrow>
   \<not> timestamp m - timestamp (last (messages c)) > g \<Longrightarrow>
   respects_gap g (earlier @ [add_message c m])"
  unfolding respects_gap_def
  by (auto simp add: boundaries_exceed_snoc gaps_within_snoc add_message_def)

lemma respects_gap_first: "respects_gap g [add_message (new_conversation m) m]"
  by (simp add: respects_gap_def add_message_def new_conversation_def)

lemma group_loop_respects_gap:
  "(case cur of None \<Rightarrow> earlier = [] | Some c \<Rightarrow> respects_gap (30 * 60 * 1000) (earlier @ [c]))
   \<Longrightarrow> respects_gap (30 * 60 * 1000) (group_loop earlier cur rest)"
proof (induction earlier cur rest rule: group_loop.induct)
  case (1 earlier)
  then show ?case by (simp add: respects_gap_def)
next
  case (2 earlier currentConv)
  then show ?case by simp
next
  case (3 earlier msg rest)
  then show ?case by (simp add: respects_gap_first)
next
  case (4 earlier currentConv msg rest)
  show ?case
  proof (cases "timestamp msg - timestamp (last (messages currentConv)) > 30 * 60 * 1000")
    case True
    then have "respects_gap (30 * 60 * 1000) ((earlier @ [currentConv]) @ [add_message (new_conversation msg) msg])"
      using "4.prems" respects_gap_start [of "30 * 60 * 1000" "earlier @ [currentConv]" msg] by simp
    then show ?thesis using True "4.IH"(1) by simp
  next
    case False
    then have "respects_gap (30 * 60 * 1000) (earlier @ [add_message currentConv msg])"
      using "4.prems" respects_gap_add by simp
    then show ?thesis using False "4.IH"(2) by simp
  qed
qed

lemma sort_by_timestamp_id: "sorted (map timestamp msgs) \<Longrightarrow> sort_by_timestamp msgs = msgs"
  by (simp add: sort_by_timestamp_def sort_key_id_if_sorted)

lemma conversations_concat:
  "concat (map messages (snd (groupIntoConversations msgs))) = sort_by_timestamp msgs"
  by (simp add: groupIntoConversations_def Let_def group_loop_concat)

lemma example_stream_sorted: "sorted (map timestamp example_stream)"
  by (simp add: example_stream_def example_message_def buildMessage_def)

lemma groupIntoConversations_respects_gap:
  "respects_gap (30 * 60 * 1000) (snd (groupIntoConversations msgs))"
  using group_loop_respects_gap [where cur = None and earlier = "[]" and rest = "sort_by_timestamp msgs"]
  by (simp add: groupIntoConversations_def Let_def)

lemma group_loop_titles:
  "list_all (\<lambda>c. messages c \<noteq> [] \<and> title c = take 50 (content (hd (messages c))) @ ''...'')
     (group_loop [] None msgs)"
  by (rule group_loop_list_all) (simp_all add: add_message_def new_conversation_def)

lemma set_set_add: "set (set_add s x) = insert x (set s)"
  by (auto simp: set_add_def)

lemma distinct_set_add: "distinct s \<Longrightarrow> distinct (set_add s x)"
  by (simp add: set_add_def)

lemma group_loop_sets:
  "list_all (\<lambda>c. set (tags c) = tag ` set (messages c)
               \<and> set (participants c) = author ` set (messages c)
               \<and> distinct (tags c) \<and> distinct (participants c))
     (group_loop [] None msgs)"
  by (rule group_loop_list_all)
     (auto simp: add_message_def new_conversation_def set_set_add distinct_set_add)

lemma conversation_members:
  assumes "c \<in> set (snd (groupIntoConversations msgs))"
  shows "set (messages c) \<subseteq> set msgs"
proof -
  have "set (messages c) \<subseteq> set (concat (map messages (snd (groupIntoConversations msgs))))"
    using assms by auto
  then show ?thesis
    by (simp add: conversations_concat sort_by_timestamp_def)
qed

lemma buildMessage_tag: "tag (buildMessage d) = classifyMessage (content (buildMessage d))"
  by (simp add: buildMessage_def)

section \<open>The classifier: properties\<close>

text \<open>
  C3. The rule table is walked in order and the first rule that matches wins: when rule
  \<open>i\<close> has a keyword that occurs in the lower-cased text and no rule before it has one, the
  label of rule \<open>i\<close> is returned, whatever the rules after it do.
\<close>

theorem classify_first_match_wins:
  assumes "i < length rules"
    and "rule_matches (toLowerCase text) (rules ! i)"
    and "\<forall>j<i. \<not> rule_matches (toLowerCase text) (rules ! j)"
  shows "classify rules text = fst (rules ! i)"
  using assms by (simp add: classify_def classify_loop_first)

theorem classify_first_match_wins_witness:
  "rule_matches (toLowerCase ''x y'') ([(''A'', [''x'']), (''B'', [''x'', ''y''])] ! 0)
   \<and> rule_matches (toLowerCase ''x y'') ([(''A'', [''x'']), (''B'', [''x'', ''y''])] ! 1)
   \<and> classify [(''A'', [''x'']), (''B'', [''x'', ''y''])] ''x y'' = ''A''
   \<and> \<not> rule_matches (toLowerCase ''Notion MEETING'') (TAG_RULES ! 0)
   \<and> rule_matches (toLowerCase ''Notion MEETING'') (TAG_RULES ! 1)
   \<and> rule_matches (toLowerCase ''Notion MEETING'') (TAG_RULES ! 3)
   \<and> classifyMessage ''Notion MEETING'' = ''Business''"
proof -
  let ?R = "[(''A'', [''x'']), (''B'', [''x'', ''y''])]"
  have a0: "rule_matches (toLowerCase ''x y'') (?R ! 0)" by code_simp
  have a1: "rule_matches (toLowerCase ''x y'') (?R ! 1)" by code_simp
  have "classify ?R ''x y'' = fst (?R ! 0)"
    by (rule classify_first_match_wins [OF _ a0]) simp_all
  then have a: "classify ?R ''x y'' = ''A''" by simp
  have b0: "\<not> rule_matches (toLowerCase ''Notion MEETING'') (TAG_RULES ! 0)" by code_simp
  have b1: "rule_matches (toLowerCase ''Notion MEETING'') (TAG_RULES ! 1)" by code_simp
  have b3: "rule_matches (toLowerCase ''Notion MEETING'') (TAG_RULES ! 3)" by code_simp
  have len: "1 < length TAG_RULES" by (simp add: TAG_RULES_def)
  have before: "\<forall>j<1. \<not> rule_matches (toLowerCase ''Notion MEETING'') (TAG_RULES ! j)"
    using b0 by simp
  have "classify TAG_RULES ''Notion MEETING'' = fst (TAG_RULES ! 1)"
    by (rule classify_first_match_wins [OF len b1 before])
  then have b: "classifyMessage ''Notion MEETING'' = ''Business''"
    by (simp add: classifyMessage_def TAG_RULES_def)
  from a0 a1 a b0 b1 b3 b show ?thesis by blast
qed

text \<open>
  C4. The claim: a rule matches when one of its keywords occurs in the text, compared without
  regard to case, however the keyword is written in the table. \<open>classifyMessage\<close> lower-cases
  the text and compares it with the keywords as they are written; the keyword \<open>shareX\<close> of
  the rule \<open>Tools\<close> has a capital letter, so the text \<open>I use ShareX\<close>, in which it occurs
  without regard to case, is not classified as \<open>Tools\<close>.
\<close>

theorem classifyMessage_misses_shareX:
  "includes_str (toLowerCase ''I use ShareX'') (toLowerCase ''shareX'')
   \<and> ''shareX'' \<in> set (snd (TAG_RULES ! 3))
   \<and> \<not> rule_matches (toLowerCase ''I use ShareX'') (TAG_RULES ! 3)
   \<and> classifyMessage ''I use ShareX'' = ''Uncategorized''"
  by code_simp

text \<open>
  C9. \<open>classifyMessage\<close> returns \<open>Uncategorized\<close> exactly when no rule of \<open>TAG_RULES\<close> matches
  the lower-cased text, and it does so for the empty text.
\<close>

theorem classifyMessage_Uncategorized_iff:
  "(classifyMessage text = ''Uncategorized'') =
     (\<not> list_ex (rule_matches (toLowerCase text)) TAG_RULES)
   \<and> classifyMessage [] = ''Uncategorized''"
proof
  show "(classifyMessage text = ''Uncategorized'') =
     (\<not> list_ex (rule_matches (toLowerCase text)) TAG_RULES)"
  proof
    assume u: "classifyMessage text = ''Uncategorized''"
    show "\<not> list_ex (rule_matches (toLowerCase text)) TAG_RULES"
    proof
      assume "list_ex (rule_matches (toLowerCase text)) TAG_RULES"
      then have "classify_loop TAG_RULES (toLowerCase text) \<in> fst ` set TAG_RULES"
        by (rule classify_loop_some)
      then have "''Uncategorized'' \<in> fst ` set TAG_RULES"
        using u by (simp add: classifyMessage_def classify_def)
      then show False by (simp add: TAG_RULES_def)
    qed
  next
    assume "\<not> list_ex (rule_matches (toLowerCase text)) TAG_RULES"
    then show "classifyMessage text = ''Uncategorized''"
      by (simp add: classifyMessage_def classify_def classify_loop_none)
  qed
next
  show "classifyMessage [] = ''Uncategorized''" by code_simp
qed

theorem classifyMessage_Uncategorized_iff_witness:
  "classifyMessage ''good morning'' = ''Uncategorized''
   \<and> \<not> list_ex (rule_matches (toLowerCase ''good morning'')) TAG_RULES
   \<and> classifyMessage ''Family Vacation'' \<noteq> ''Uncategorized''
   \<and> list_ex (rule_matches (toLowerCase ''Family Vacation'')) TAG_RULES"
proof -
  have a: "\<not> list_ex (rule_matches (toLowerCase ''good morning'')) TAG_RULES" by code_simp
  have b: "list_ex (rule_matches (toLowerCase ''Family Vacation'')) TAG_RULES" by code_simp
  from a b classifyMessage_Uncategorized_iff [of "''good morning''"]
    classifyMessage_Uncategorized_iff [of "''Family Vacation''"]
  show ?thesis by blast
qed

section \<open>The segmenter: properties\<close>

text \<open>
  C1. For a non-empty sequence of messages sorted ascending by timestamp, the message lists
  of the conversations returned by \<open>groupIntoConversations\<close>, concatenated in order, are the
  sequence itself: nothing is lost, duplicated or moved.
\<close>

theorem segment_concat_is_input:
  assumes "msgs \<noteq> []" and "sorted (map timestamp msgs)"
  shows "concat (map messages (snd (groupIntoConversations msgs))) = msgs"
  using assms by (simp add: conversations_concat sort_by_timestamp_id)

theorem segment_concat_is_input_witness:
  "example_stream \<noteq> []
   \<and> sorted (map timestamp example_stream)
   \<and> map (map timestamp \<circ> messages) (snd (groupIntoConversations example_stream)) =
       [[0, 300000], [2400000, 2460000]]
   \<and> concat (map messages (snd (groupIntoConversations example_stream))) = example_stream"
proof -
  have ne: "example_stream \<noteq> []" by (simp add: example_stream_def)
  have gr: "map (map timestamp \<circ> messages) (snd (groupIntoConversations example_stream)) =
       [[0, 300000], [2400000, 2460000]]"
    by code_simp
  show ?thesis
    using ne example_stream_sorted gr segment_concat_is_input [OF ne example_stream_sorted]
    by simp
qed

text \<open>
  C2, the claim as stated fails: it speaks of every positive gap threshold, but
  \<open>groupIntoConversations\<close> takes no threshold and always splits at 30 minutes. With a
  threshold of 1 millisecond, two messages one second apart would have to be split; they stay
  in one conversation.
\<close>

theorem gap_threshold_is_not_a_parameter:
  "sorted (map timestamp
      [example_message ''ann'' ''first'' 0, example_message ''bob'' ''second'' 1000])
   \<and> (0::int) < 1
   \<and> length (snd (groupIntoConversations
        [example_message ''ann'' ''first'' 0, example_message ''bob'' ''second'' 1000])) = 1
   \<and> \<not> respects_gap 1
         (snd (groupIntoConversations
            [example_message ''ann'' ''first'' 0, example_message ''bob'' ''second'' 1000]))"
  by code_simp

text \<open>
  C2, amended. The threshold is the constant 30 minutes (1,800,000 ms). For messages sorted
  ascending by timestamp, in every conversation returned each message but the first follows
  the one before it by at most 30 minutes, and from the last message of a conversation to
  the first message of the next more than 30 minutes pass; so the two messages at a
  boundary never have the same timestamp.
\<close>

theorem segment_respects_fixed_gap:
  assumes "sorted (map timestamp msgs)"
  shows "respects_gap (30 * 60 * 1000) (snd (groupIntoConversations msgs))
         \<and> boundaries_exceed 0 (snd (groupIntoConversations msgs))"
proof -
  have r: "respects_gap (30 * 60 * 1000) (snd (groupIntoConversations msgs))"
    by (rule groupIntoConversations_respects_gap)
  then have "boundaries_exceed (30 * 60 * 1000) (snd (groupIntoConversations msgs))"
    by (simp add: respects_gap_def)
  then have "boundaries_exceed 0 (snd (groupIntoConversations msgs))"
    by (rule boundaries_exceed_mono [rotated]) simp
  with r show ?thesis by simp
qed

theorem segment_respects_fixed_gap_witness:
  "sorted (map timestamp example_stream)
   \<and> length (snd (groupIntoConversations example_stream)) = 2
   \<and> respects_gap (30 * 60 * 1000) (snd (groupIntoConversations example_stream))
   \<and> boundaries_exceed 0 (snd (groupIntoConversations example_stream))"
proof -
  have len: "length (snd (groupIntoConversations example_stream)) = 2" by code_simp
  show ?thesis
    using example_stream_sorted len segment_respects_fixed_gap [OF example_stream_sorted]
    by simp
qed

text \<open>
  C5. Every conversation returned has a first message, and its title is the first 50 code
  units of that message's text followed by three dots, whatever the length of the text; an
  empty text gives the title of three dots alone.
\<close>

theorem conversation_title:
  "\<forall>c \<in> set (snd (groupIntoConversations msgs)).
     messages c \<noteq> [] \<and> title c = take 50 (content (hd (messages c))) @ ''...''"
  using group_loop_titles [of "sort_by_timestamp msgs"]
  by (simp add: groupIntoConversations_def Let_def list_all_iff)

theorem conversation_title_witness:
  "map title (snd (groupIntoConversations
      [example_message ''bob'' '''' 0,
       example_message ''ann'' ''0123456789012345678901234567890123456789012345678901234'' 2000000])) =
     [''...'', ''01234567890123456789012345678901234567890123456789...'']"
proof -
  let ?ex = "[example_message ''bob'' '''' 0,
       example_message ''ann'' ''0123456789012345678901234567890123456789012345678901234'' 2000000]"
  have hds: "map (content \<circ> hd \<circ> messages) (snd (groupIntoConversations ?ex)) =
     ['''', ''0123456789012345678901234567890123456789012345678901234'']"
    by code_simp
  have "map title (snd (groupIntoConversations ?ex)) =
     map (\<lambda>c. take 50 (content (hd (messages c))) @ ''...'') (snd (groupIntoConversations ?ex))"
    using conversation_title [of ?ex] by simp
  also have "\<dots> = map (\<lambda>s. take 50 s @ ''...'')
                     (map (content \<circ> hd \<circ> messages) (snd (groupIntoConversations ?ex)))"
    by simp
  also have "\<dots> = [''...'', ''01234567890123456789012345678901234567890123456789...'']"
    unfolding hds by simp
  finally show ?thesis .
qed

text \<open>
  C8. \<open>groupIntoConversations\<close> collects the \<open>tag\<close> and the \<open>author\<close> of each message in two
  sets, and the exporter has set every \<open>tag\<close> to \<open>classifyMessage\<close> of that message's text.
  So for the messages the exporter builds, the tags of every conversation are the labels of
  its messages, each text classified by itself, its participants are the authors of its
  messages, and neither list repeats a member.
\<close>

theorem conversation_tags_participants:
  "\<forall>c \<in> set (snd (groupIntoConversations (map buildMessage fetched))).
     set (tags c) = (\<lambda>m. classifyMessage (content m)) ` set (messages c)
     \<and> set (participants c) = author ` set (messages c)
     \<and> distinct (tags c) \<and> distinct (participants c)"
proof
  fix c assume c: "c \<in> set (snd (groupIntoConversations (map buildMessage fetched)))"
  have "\<forall>m \<in> set (messages c). tag m = classifyMessage (content m)"
    using conversation_members [OF c] buildMessage_tag by auto
  then have "tag ` set (messages c) = (\<lambda>m. classifyMessage (content m)) ` set (messages c)"
    by (simp cong: image_cong)
  moreover have "set (tags c) = tag ` set (messages c)
               \<and> set (participants c) = author ` set (messages c)
               \<and> distinct (tags c) \<and> distinct (participants c)"
    using c group_loop_sets [of "sort_by_timestamp (map buildMessage fetched)"]
    by (simp add: groupIntoConversations_def Let_def list_all_iff)
  ultimately show "set (tags c) = (\<lambda>m. classifyMessage (content m)) ` set (messages c)
     \<and> set (participants c) = author ` set (messages c)
     \<and> distinct (tags c) \<and> distinct (participants c)" by simp
qed

theorem conversation_tags_participants_witness:
  "last (snd (groupIntoConversations example_stream)) \<in> set (snd (groupIntoConversations example_stream))
   \<and> map author (messages (last (snd (groupIntoConversations example_stream)))) = [''ann'', ''ann'']
   \<and> map tags (snd (groupIntoConversations example_stream)) =
        [[''Development'', ''Uncategorized''], [''Vegas/MGM'']]
   \<and> map participants (snd (groupIntoConversations example_stream)) = [[''ann'', ''bob''], [''ann'']]
   \<and> set (tags (last (snd (groupIntoConversations example_stream)))) =
        (\<lambda>m. classifyMessage (content m)) ` set (messages (last (snd (groupIntoConversations example_stream))))
   \<and> set (participants (last (snd (groupIntoConversations example_stream)))) =
        author ` set (messages (last (snd (groupIntoConversations example_stream))))
   \<and> distinct (tags (last (snd (groupIntoConversations example_stream))))
   \<and> distinct (participants (last (snd (groupIntoConversations example_stream))))"
proof -
  let ?fetched = "[\<lparr>d_id = ''1'', d_username = ''ann'', d_userId = ''7'', d_content = ''deploy the code'',
                     d_createdAt = 0, d_attachment_urls = []\<rparr>,
                   \<lparr>d_id = ''1'', d_username = ''bob'', d_userId = ''7'', d_content = '''',
                     d_createdAt = 300000, d_attachment_urls = []\<rparr>,
                   \<lparr>d_id = ''1'', d_username = ''ann'', d_userId = ''7'', d_content = ''vegas travel'',
                     d_createdAt = 2400000, d_attachment_urls = []\<rparr>,
                   \<lparr>d_id = ''1'', d_username = ''ann'', d_userId = ''7'', d_content = ''which hotel in vegas'',
                     d_createdAt = 2460000, d_attachment_urls = []\<rparr>]"
  have built: "example_stream = map buildMessage ?fetched"
    by (simp add: example_stream_def example_message_def)
  have ne: "snd (groupIntoConversations example_stream) \<noteq> []"
    by code_simp
  then have mem: "last (snd (groupIntoConversations example_stream))
                    \<in> set (snd (groupIntoConversations example_stream))"
    by simp
  have authors: "map author (messages (last (snd (groupIntoConversations example_stream)))) = [''ann'', ''ann'']"
    by code_simp
  have tgs: "map tags (snd (groupIntoConversations example_stream)) =
        [[''Development'', ''Uncategorized''], [''Vegas/MGM'']]"
    by code_simp
  have ps: "map participants (snd (groupIntoConversations example_stream)) = [[''ann'', ''bob''], [''ann'']]"
    by code_simp
  have "\<forall>c \<in> set (snd (groupIntoConversations example_stream)).
     set (tags c) = (\<lambda>m. classifyMessage (content m)) ` set (messages c)
     \<and> set (participants c) = author ` set (messages c)
     \<and> distinct (tags c) \<and> distinct (participants c)"
    unfolding built by (rule conversation_tags_participants)
  from bspec [OF this mem] mem authors tgs ps show ?thesis by blast
qed

text \<open>
  C6, the claim as stated fails: no error is raised for messages that are out of order.
  \<open>groupIntoConversations\<close> has no check and no error path; it sorts the two messages and
  returns one conversation.
\<close>

theorem unsorted_input_is_segmented:
  "\<not> sorted (map timestamp example_unsorted)
   \<and> map (map content \<circ> messages) (snd (groupIntoConversations example_unsorted)) = [[''first'', ''second'']]"
  by code_simp

text \<open>
  C6, amended. For every sequence of messages, in order or not, \<open>groupIntoConversations\<close>
  returns conversations and raises nothing: their message lists, concatenated, are the
  messages sorted ascending by timestamp (a stable sort of the input, with the same members).
\<close>

theorem segment_sorts_then_groups:
  "concat (map messages (snd (groupIntoConversations msgs))) = sort_by_timestamp msgs
   \<and> sorted (map timestamp (concat (map messages (snd (groupIntoConversations msgs)))))
   \<and> mset (concat (map messages (snd (groupIntoConversations msgs)))) = mset msgs"
  by (simp add: conversations_concat sort_by_timestamp_def)

theorem segment_sorts_then_groups_witness:
  "concat (map messages (snd (groupIntoConversations example_unsorted))) = rev example_unsorted
   \<and> sorted (map timestamp (concat (map messages (snd (groupIntoConversations example_unsorted)))))
   \<and> mset (concat (map messages (snd (groupIntoConversations example_unsorted)))) = mset example_unsorted"
proof -
  have s: "sort_by_timestamp example_unsorted = rev example_unsorted" by code_simp
  show ?thesis
    unfolding s [symmetric] by (rule segment_sorts_then_groups)
qed

text \<open>
  C7, the claim as stated fails: \<open>messages.sort\<close> sorts the caller's array in place, so
  after the call two messages handed over out of order have changed places.
\<close>

theorem caller_array_is_reordered:
  "fst (groupIntoConversations example_unsorted) \<noteq> example_unsorted
   \<and> map content example_unsorted = [''second'', ''first'']
   \<and> map content (fst (groupIntoConversations example_unsorted)) = [''first'', ''second'']"
  by code_simp

text \<open>
  C7, amended. \<open>groupIntoConversations\<close> sorts its input in place: after the call the
  caller's array holds the same messages sorted ascending by timestamp, messages with equal
  timestamps in their former order; it is the array that was passed in exactly when that one
  was sorted already; and the conversations are formed over the sorted array.
\<close>

theorem segment_sorts_callers_array:
  "fst (groupIntoConversations msgs) = sort_by_timestamp msgs
   \<and> sorted (map timestamp (fst (groupIntoConversations msgs)))
   \<and> mset (fst (groupIntoConversations msgs)) = mset msgs
   \<and> filter (\<lambda>m. timestamp m = t) (fst (groupIntoConversations msgs)) = filter (\<lambda>m. timestamp m = t) msgs
   \<and> (fst (groupIntoConversations msgs) = msgs) = sorted (map timestamp msgs)
   \<and> snd (groupIntoConversations msgs) = group_loop [] None (fst (groupIntoConversations msgs))"
proof -
  have eq: "fst (groupIntoConversations msgs) = sort_key timestamp msgs"
    by (simp add: groupIntoConversations_def Let_def sort_by_timestamp_def)
  have "(sort_key timestamp msgs = msgs) = sorted (map timestamp msgs)"
  proof
    assume "sort_key timestamp msgs = msgs"
    then have "map timestamp msgs = map timestamp (sort_key timestamp msgs)" by simp
    then show "sorted (map timestamp msgs)" by (simp only: sorted_sort_key)
  next
    assume "sorted (map timestamp msgs)"
    then show "sort_key timestamp msgs = msgs" by (rule sort_key_id_if_sorted)
  qed
  then show ?thesis
    unfolding eq
    by (simp add: sort_by_timestamp_def sort_key_stable groupIntoConversations_def Let_def)
qed

theorem segment_sorts_callers_array_witness:
  "fst (groupIntoConversations example_unsorted) = rev example_unsorted
   \<and> \<not> sorted (map timestamp example_unsorted)
   \<and> fst (groupIntoConversations example_unsorted) \<noteq> example_unsorted
   \<and> fst (groupIntoConversations example_stream) = example_stream"
proof -
  have a: "sort_by_timestamp example_unsorted = rev example_unsorted" by code_simp
  have b: "\<not> sorted (map timestamp example_unsorted)" by code_simp
  note u = segment_sorts_callers_array [of example_unsorted 0]
  note v = segment_sorts_callers_array [of example_stream 0]
  have "fst (groupIntoConversations example_unsorted) = sort_by_timestamp example_unsorted"
    using u by blast
  with a have A: "fst (groupIntoConversations example_unsorted) = rev example_unsorted"
    by simp
  have "(fst (groupIntoConversations example_unsorted) = example_unsorted) =
          sorted (map timestamp example_unsorted)"
    using u by blast
  with b have B: "fst (groupIntoConversations example_unsorted) \<noteq> example_unsorted"
    by simp
  have "(fst (groupIntoConversations example_stream) = example_stream) =
          sorted (map timestamp example_stream)"
    using v by blast
  with example_stream_sorted have C: "fst (groupIntoConversations example_stream) = example_stream"
    by simp
  from A b B C show ?thesis by blast
qed

section \<open>The webhook handler: properties\<close>

text \<open>
  C10, the claim as stated fails twice. A request whose \<open>x-notion-signature\<close> header is
  there with the empty value, which differs from the digest, is not checked and is forwarded
  with status 200. And a request without the header is not forwarded for every payload: for a
  body without \<open>user\<close>, \<open>formatDiscordMessage\<close> throws, nothing is posted and the status is
  500.
\<close>

theorem empty_signature_header_is_forwarded:
  "headers \<lparr>headers = [''x-notion-signature'' \<mapsto> ''''], body = example_payload\<rparr>
       ''x-notion-signature'' = Some ''''
   \<and> NOTION_SECRET example_environment = Some ''secret''
   \<and> hmac_sha256_hex example_environment ''secret''
        (JSON_stringify example_environment example_payload) \<noteq> ''''
   \<and> status (notion_webhook example_environment
        \<lparr>headers = [''x-notion-signature'' \<mapsto> ''''], body = example_payload\<rparr>) = 200
   \<and> posted (notion_webhook example_environment
        \<lparr>headers = [''x-notion-signature'' \<mapsto> ''''], body = example_payload\<rparr>) \<noteq> None
   \<and> \<not> signature_checked (notion_webhook example_environment
        \<lparr>headers = [''x-notion-signature'' \<mapsto> ''''], body = example_payload\<rparr>)
   \<and> headers \<lparr>headers = Map.empty, body = example_payload\<lparr>user := None\<rparr>\<rparr>
       ''x-notion-signature'' = None
   \<and> status (notion_webhook example_environment
        \<lparr>headers = Map.empty, body = example_payload\<lparr>user := None\<rparr>\<rparr>) = 500
   \<and> posted (notion_webhook example_environment
        \<lparr>headers = Map.empty, body = example_payload\<lparr>user := None\<rparr>\<rparr>) = None"
  by (simp add: notion_webhook_def example_environment_def example_payload_def
      formatDiscordMessage_def userMapping_def)

text \<open>
  C10, amended. The signature is checked only for a header value that is not empty. A request
  without the header, or with the empty value, is not checked and goes on to be formatted and
  posted to Discord: status 200 when the post resolves, 500 when formatting or the post
  fails. A request with a non-empty header value that differs from the digest of the
  serialised body under the configured secret gets status 401 and nothing is posted.
\<close>

theorem webhook_signature_gate:
  "((headers req ''x-notion-signature'' = None \<or> headers req ''x-notion-signature'' = Some [])
      \<longrightarrow> \<not> signature_checked (notion_webhook env req)
          \<and> (case formatDiscordMessage (clock_iso env) (body req) of
                Inl e \<Rightarrow> status (notion_webhook env req) = 500
                         \<and> posted (notion_webhook env req) = None
              | Inr m \<Rightarrow> posted (notion_webhook env req) = Some m
                         \<and> status (notion_webhook env req) =
                             (if axios_post_resolves env m then 200 else 500)))
   \<and> (headers req ''x-notion-signature'' = Some s \<and> s \<noteq> []
        \<and> NOTION_SECRET env = Some secret
        \<and> s \<noteq> hmac_sha256_hex env secret (JSON_stringify env (body req))
      \<longrightarrow> signature_checked (notion_webhook env req)
          \<and> status (notion_webhook env req) = 401
          \<and> posted (notion_webhook env req) = None)"
  by (auto simp: notion_webhook_def verifyNotionSignature_def split: sum.splits option.splits)

theorem webhook_signature_gate_witness:
  "headers \<lparr>headers = Map.empty, body = example_payload\<rparr> ''x-notion-signature'' = None
   \<and> \<not> signature_checked (notion_webhook example_environment
          \<lparr>headers = Map.empty, body = example_payload\<rparr>)
   \<and> status (notion_webhook example_environment
          \<lparr>headers = Map.empty, body = example_payload\<rparr>) = 200
   \<and> posted (notion_webhook example_environment
          \<lparr>headers = Map.empty, body = example_payload\<rparr>) \<noteq> None
   \<and> headers \<lparr>headers = [''x-notion-signature'' \<mapsto> ''00ff''], body = example_payload\<rparr>
        ''x-notion-signature'' = Some ''00ff''
   \<and> ''00ff'' \<noteq> hmac_sha256_hex example_environment ''secret''
        (JSON_stringify example_environment example_payload)
   \<and> signature_checked (notion_webhook example_environment
          \<lparr>headers = [''x-notion-signature'' \<mapsto> ''00ff''], body = example_payload\<rparr>)
   \<and> status (notion_webhook example_environment
          \<lparr>headers = [''x-notion-signature'' \<mapsto> ''00ff''], body = example_payload\<rparr>) = 401
   \<and> posted (notion_webhook example_environment
          \<lparr>headers = [''x-notion-signature'' \<mapsto> ''00ff''], body = example_payload\<rparr>) = None"
proof -
  let ?plain = "\<lparr>headers = Map.empty, body = example_payload\<rparr>"
  let ?bad = "\<lparr>headers = [''x-notion-signature'' \<mapsto> ''00ff''], body = example_payload\<rparr>"
  have h1: "headers ?plain ''x-notion-signature'' = None" by simp
  have f: "\<exists>m. formatDiscordMessage (clock_iso example_environment) (body ?plain) = Inr m"
    by (simp add: formatDiscordMessage_def example_payload_def Let_def split: option.splits)
  then obtain m where m: "formatDiscordMessage (clock_iso example_environment) (body ?plain) = Inr m"
    by blast
  have ok: "axios_post_resolves example_environment m" by (simp add: example_environment_def)
  have p1: "\<not> signature_checked (notion_webhook example_environment ?plain)
            \<and> posted (notion_webhook example_environment ?plain) = Some m
            \<and> status (notion_webhook example_environment ?plain) = 200"
    using webhook_signature_gate [of ?plain example_environment "[]" "[]"] h1 m ok by simp
  have h2: "headers ?bad ''x-notion-signature'' = Some ''00ff''" by simp
  have h3: "NOTION_SECRET example_environment = Some ''secret''"
    by (simp add: example_environment_def)
  have h4: "''00ff'' \<noteq> hmac_sha256_hex example_environment ''secret''
        (JSON_stringify example_environment example_payload)"
    by (simp add: example_environment_def)
  have p2: "signature_checked (notion_webhook example_environment ?bad)
            \<and> status (notion_webhook example_environment ?bad) = 401
            \<and> posted (notion_webhook example_environment ?bad) = None"
    using webhook_signature_gate [of ?bad example_environment "''00ff''" "''secret''"] h2 h3 h4
    by simp
  from h1 p1 h2 h4 p2 show ?thesis by blast
qed

end
